theory Spec2Isabelle
  imports Complex_Main "HOL-Library.Char_ord" "HOL-Library.List_Lexorder"
begin

section \<open>Values and errors\<close>

text \<open>
  A numeric cell is either the not-a-number sentinel or a finite number. Finite doubles are
  taken as exact reals: rounding and overflow are outside this development, which only
  needs how the sentinel travels through the reductions. A Python \<open>None\<close> in an
  input sequence is \<open>None\<close> of \<open>pyval\<close>.
  Sequences of other element types (integers, strings) are outside this development.
\<close>

datatype npfloat = NaN | Fin real

type_synonym pyval = "npfloat option"

datatype py_error = KeyError string | IndexError | ValueError | TypeError | FileNotFoundError

section \<open>The numpy reductions used by \<open>calc_series_stats\<close>\<close>

text \<open>
  \<open>np.maximum\<close> and \<open>np.minimum\<close>: if one of the two elements compared is the
  sentinel, that element is returned.
\<close>

fun np_maximum :: "npfloat \<Rightarrow> npfloat \<Rightarrow> npfloat" where
  "np_maximum NaN b = NaN"
| "np_maximum (Fin a) NaN = NaN"
| "np_maximum (Fin a) (Fin b) = Fin (max a b)"

fun np_minimum :: "npfloat \<Rightarrow> npfloat \<Rightarrow> npfloat" where
  "np_minimum NaN b = NaN"
| "np_minimum (Fin a) NaN = NaN"
| "np_minimum (Fin a) (Fin b) = Fin (min a b)"

text \<open>
  \<open>np.max(a, initial=i)\<close> is \<open>np.maximum.reduce\<close> started at \<open>i\<close>: the initial
  value takes part in the reduction like any other element.
\<close>

definition np_max :: "npfloat list \<Rightarrow> npfloat \<Rightarrow> npfloat" where
  "np_max a initial = foldl np_maximum initial a"

definition np_min :: "npfloat list \<Rightarrow> npfloat \<Rightarrow> npfloat" where
  "np_min a initial = foldl np_minimum initial a"

fun np_sub :: "npfloat \<Rightarrow> npfloat \<Rightarrow> npfloat" where
  "np_sub (Fin a) (Fin b) = Fin (a - b)"
| "np_sub a b = NaN"

text \<open>\<open>np.diff(a)\<close> is \<open>a[1:] - a[:-1]\<close>.\<close>

definition np_diff :: "npfloat list \<Rightarrow> npfloat list" where
  "np_diff a = map (\<lambda>(x, y). np_sub x y) (zip (tl a) (butlast a))"

text \<open>The finite entries of an array, or \<open>None\<close> when the sentinel occurs in it.\<close>

fun finite_vals :: "npfloat list \<Rightarrow> real list option" where
  "finite_vals [] = Some []"
| "finite_vals (NaN # xs) = None"
| "finite_vals (Fin r # xs) = map_option ((#) r) (finite_vals xs)"

definition mean_real :: "real list \<Rightarrow> real" where
  "mean_real rs = sum_list rs / real (length rs)"

definition median_real :: "real list \<Rightarrow> real" where
  "median_real rs =
     (let s = sort rs; n = length s
      in if odd n then s ! (n div 2) else (s ! (n div 2 - 1) + s ! (n div 2)) / 2)"

text \<open>
  Mean, median and population standard deviation: the sentinel on an empty array and on
  an array holding the sentinel.
\<close>

definition np_mean :: "npfloat list \<Rightarrow> npfloat" where
  "np_mean a =
     (case finite_vals a of
        None \<Rightarrow> NaN
      | Some rs \<Rightarrow> if rs = [] then NaN else Fin (mean_real rs))"

definition np_median :: "npfloat list \<Rightarrow> npfloat" where
  "np_median a =
     (case finite_vals a of
        None \<Rightarrow> NaN
      | Some rs \<Rightarrow> if rs = [] then NaN else Fin (median_real rs))"

definition np_std :: "npfloat list \<Rightarrow> npfloat" where
  "np_std a =
     (case finite_vals a of
        None \<Rightarrow> NaN
      | Some rs \<Rightarrow>
          if rs = [] then NaN
          else Fin (sqrt (mean_real (map (\<lambda>x. (x - mean_real rs)\<^sup>2) rs))))"

section \<open>\<open>calc_series_stats\<close>\<close>

text \<open>\<open>series[series != np.array(None)]\<close>: the entries that are not \<open>None\<close>, in order.\<close>

fun drop_none :: "pyval list \<Rightarrow> npfloat list" where
  "drop_none [] = []"
| "drop_none (None # xs) = drop_none xs"
| "drop_none (Some v # xs) = v # drop_none xs"

definition calc_series_stats :: "pyval list \<Rightarrow> string \<Rightarrow> (string \<rightharpoonup> npfloat)" where
  "calc_series_stats series0 name_prefix =
     (let series = drop_none series0;
          diff_arr = np_diff series
      in Map.empty
           (name_prefix @ ''_mean'' \<mapsto> np_mean series,
            name_prefix @ ''_median'' \<mapsto> np_median series,
            name_prefix @ ''_max'' \<mapsto> np_max series NaN,
            name_prefix @ ''_min'' \<mapsto> np_min series NaN,
            name_prefix @ ''_std'' \<mapsto> np_std series,
            name_prefix @ ''_diff_mean'' \<mapsto> np_mean diff_arr,
            name_prefix @ ''_diff_median'' \<mapsto> np_median diff_arr,
            name_prefix @ ''_diff_max'' \<mapsto> np_max diff_arr NaN,
            name_prefix @ ''_diff_min'' \<mapsto> np_min diff_arr NaN,
            name_prefix @ ''_diff_std'' \<mapsto> np_std diff_arr))"

section \<open>Python built-ins\<close>

text \<open>\<open>str(n)\<close> of a non-negative and of any integer, in decimal.\<close>

fun str_nat :: "nat \<Rightarrow> string" where
  "str_nat n =
     (if n < 10 then [char_of (48 + n)]
      else str_nat (n div 10) @ [char_of (48 + n mod 10)])"

declare str_nat.simps [simp del]

definition str_int :: "int \<Rightarrow> string" where
  "str_int i = (if i < 0 then CHR ''-'' # str_nat (nat (- i)) else str_nat (nat i))"

text \<open>The slice \<open>xs[:n]\<close>: a negative \<open>n\<close> counts from the end.\<close>

definition slice_to :: "int \<Rightarrow> 'a list \<Rightarrow> 'a list" where
  "slice_to n xs =
     (if n < 0 then take (nat (int (length xs) + n)) xs else take (nat n) xs)"

section \<open>\<open>QuarterlyFeatures\<close>\<close>

text \<open>
  A quarterly record is a dictionary: its \<open>date\<close> and, for each metric name it
  holds, a number or \<open>None\<close>. The attribute \<open>_data_path\<close> of the calculator is
  \<open>qf_data_path\<close>, unset until \<open>calculate\<close> stores the path.
\<close>

record quarterly_record =
  date :: string
  metrics :: "string \<rightharpoonup> pyval"

record QuarterlyFeatures =
  columns :: "string list"
  quarter_counts :: "int list"
  max_back_quarter :: int
  qf_data_path :: "string option"

text \<open>A cell of a feature row or of a table: a string, a float or an integer.\<close>

datatype cell = CStr string | CNum npfloat | CInt int

type_synonym feature_row = "string \<rightharpoonup> cell"

text \<open>\<open>[x[col] for x in data]\<close>: a record without the column raises \<open>KeyError\<close>.\<close>

fun series_of_col :: "string \<Rightarrow> quarterly_record list \<Rightarrow> py_error + pyval list" where
  "series_of_col col [] = Inr []"
| "series_of_col col (x # xs) =
     (case metrics x col of
        None \<Rightarrow> Inl (KeyError col)
      | Some v \<Rightarrow>
          (case series_of_col col xs of
             Inl e \<Rightarrow> Inl e
           | Inr vs \<Rightarrow> Inr (v # vs)))"

text \<open>
  \<open>_calc_series_feats\<close>: the inner loop over the columns for one window size, the outer
  loop over the window sizes; \<open>data[:quarter_cnt][::-1]\<close> is the first \<open>quarter_cnt\<close>
  records, oldest first, and \<open>result.update(feats)\<close> lets the new keys win.
\<close>

fun calc_series_feats_cols ::
  "quarterly_record list \<Rightarrow> int \<Rightarrow> string list \<Rightarrow> (string \<rightharpoonup> npfloat)
     \<Rightarrow> py_error + (string \<rightharpoonup> npfloat)" where
  "calc_series_feats_cols data quarter_cnt [] result = Inr result"
| "calc_series_feats_cols data quarter_cnt (col # cols) result =
     (case series_of_col col (rev (slice_to quarter_cnt data)) of
        Inl e \<Rightarrow> Inl e
      | Inr series \<Rightarrow>
          calc_series_feats_cols data quarter_cnt cols
            (result ++ calc_series_stats series
                         (''quarter'' @ str_int quarter_cnt @ ''_'' @ col)))"

fun calc_series_feats_counts ::
  "string list \<Rightarrow> quarterly_record list \<Rightarrow> int list \<Rightarrow> (string \<rightharpoonup> npfloat)
     \<Rightarrow> py_error + (string \<rightharpoonup> npfloat)" where
  "calc_series_feats_counts cols data [] result = Inr result"
| "calc_series_feats_counts cols data (quarter_cnt # cnts) result =
     (case calc_series_feats_cols data quarter_cnt cols result of
        Inl e \<Rightarrow> Inl e
      | Inr result' \<Rightarrow> calc_series_feats_counts cols data cnts result')"

definition calc_series_feats ::
  "QuarterlyFeatures \<Rightarrow> quarterly_record list \<Rightarrow> py_error + (string \<rightharpoonup> npfloat)" where
  "calc_series_feats self data =
     calc_series_feats_counts (columns self) data (quarter_counts self) Map.empty"

text \<open>
  \<open>_single_ticker\<close>: the loop over \<open>range(max_back_quarter)\<close>, then the function.
  \<open>load_quarterly_data_cf1\<close> lives in a module that is not part of these sources and is
  a parameter.
\<close>

fun single_ticker_loop ::
  "QuarterlyFeatures \<Rightarrow> string \<Rightarrow> quarterly_record list \<Rightarrow> nat list \<Rightarrow> feature_row list
     \<Rightarrow> py_error + feature_row list" where
  "single_ticker_loop self ticker quarterly_data [] result = Inr result"
| "single_ticker_loop self ticker quarterly_data (back_quarter # rest) result =
     (case drop back_quarter quarterly_data of
        [] \<Rightarrow> Inl IndexError
      | r0 # curr_tl \<Rightarrow>
          (case calc_series_feats self (r0 # curr_tl) of
             Inl e \<Rightarrow> Inl e
           | Inr series_feats \<Rightarrow>
               single_ticker_loop self ticker quarterly_data rest
                 (result @
                  [[''ticker'' \<mapsto> CStr ticker, ''date'' \<mapsto> CStr (date r0)]
                     ++ (map_option CNum \<circ> series_feats)])))"

definition single_ticker ::
  "QuarterlyFeatures \<Rightarrow> (string \<Rightarrow> string option \<Rightarrow> quarterly_record list) \<Rightarrow> string
     \<Rightarrow> py_error + feature_row list" where
  "single_ticker self load_quarterly_data_cf1 ticker =
     (let quarterly_data = load_quarterly_data_cf1 ticker (qf_data_path self);
          max_back_quarter' = min (max_back_quarter self) (int (length quarterly_data) - 1)
      in single_ticker_loop self ticker quarterly_data [0..<nat max_back_quarter'] [])"

text \<open>Example inputs.\<close>

definition example_features :: QuarterlyFeatures where
  "example_features =
     \<lparr>columns = [''revenue''], quarter_counts = [2, 4, 10], max_back_quarter = 10,
      qf_data_path = None\<rparr>"

definition example_quarter :: "string \<Rightarrow> real \<Rightarrow> quarterly_record" where
  "example_quarter d v = \<lparr>date = d, metrics = [''revenue'' \<mapsto> Some (Fin v)]\<rparr>"

definition no_quarters :: "string \<Rightarrow> string option \<Rightarrow> quarterly_record list" where
  "no_quarters ticker path = []"

definition one_quarter :: "string \<Rightarrow> string option \<Rightarrow> quarterly_record list" where
  "one_quarter ticker path = [example_quarter ''2020-12-31'' 7]"


section \<open>Data frames and \<open>pd.merge(..., how='left')\<close>\<close>

text \<open>
  A data frame is rectangular: a list of column names and rows holding one cell per column,
  \<open>None\<close> for a null cell. The type parameter is the type of a non-null cell.
\<close>

record 'c dataframe =
  df_columns :: "string list"
  df_rows :: "'c option list list"

fun col_index :: "string list \<Rightarrow> string \<Rightarrow> nat option" where
  "col_index [] c = None"
| "col_index (x # xs) c = (if x = c then Some 0 else map_option Suc (col_index xs c))"

definition cell_at :: "string list \<Rightarrow> 'c option list \<Rightarrow> string \<Rightarrow> 'c option" where
  "cell_at cols row c =
     (case col_index cols c of
        None \<Rightarrow> None
      | Some i \<Rightarrow> if i < length row then row ! i else None)"

definition row_key :: "string list \<Rightarrow> string list \<Rightarrow> 'c option list \<Rightarrow> 'c option list" where
  "row_key cols on_cols row = map (cell_at cols row) on_cols"

definition nonkey_columns :: "string list \<Rightarrow> string list \<Rightarrow> string list" where
  "nonkey_columns cols on_cols = [c \<leftarrow> cols. c \<notin> set on_cols]"

definition nonkey_cells :: "string list \<Rightarrow> string list \<Rightarrow> 'c option list \<Rightarrow> 'c option list" where
  "nonkey_cells cols on_cols row = map snd [cv \<leftarrow> zip cols row. fst cv \<notin> set on_cols]"

text \<open>
  The right rows whose key equals the key of a left row, in the right table's order.
\<close>

definition matches :: "'c dataframe \<Rightarrow> string list \<Rightarrow> 'c option list \<Rightarrow> 'c option list list" where
  "matches X2 on_cols lkey = [r \<leftarrow> df_rows X2. row_key (df_columns X2) on_cols r = lkey]"

text \<open>
  The output rows of one left row: the left cells followed by the non-key cells of each
  matching right row, or by nulls when no right row matches.
\<close>

definition left_join_row ::
  "'c dataframe \<Rightarrow> 'c dataframe \<Rightarrow> string list \<Rightarrow> 'c option list \<Rightarrow> 'c option list list" where
  "left_join_row X1 X2 on_cols l =
     (let ms = matches X2 on_cols (row_key (df_columns X1) on_cols l)
      in if ms = []
         then [l @ replicate (length (nonkey_columns (df_columns X2) on_cols)) None]
         else map (\<lambda>r. l @ nonkey_cells (df_columns X2) on_cols r) ms)"

text \<open>
  Column names of the result: the left columns, then the right columns that are not keys;
  a non-key name present on both sides takes the suffix \<open>_x\<close> on the left and
  \<open>_y\<close> on the right.
\<close>

definition merge_columns :: "string list \<Rightarrow> string list \<Rightarrow> string list \<Rightarrow> string list" where
  "merge_columns lcols rcols on_cols =
     map (\<lambda>c. if c \<notin> set on_cols \<and> c \<in> set rcols then c @ ''_x'' else c) lcols
     @ map (\<lambda>c. if c \<in> set lcols then c @ ''_y'' else c) (nonkey_columns rcols on_cols)"

text \<open>
  \<open>pd.merge(X1, X2, on=on, how='left')\<close>: a key that is not a column of both tables
  raises \<open>KeyError\<close>; otherwise every left row, in order, is joined with its matches.
\<close>

definition pd_merge_left ::
  "'c dataframe \<Rightarrow> 'c dataframe \<Rightarrow> string list \<Rightarrow> py_error + 'c dataframe" where
  "pd_merge_left X1 X2 on_cols =
     (case [k \<leftarrow> on_cols. k \<notin> set (df_columns X1) \<or> k \<notin> set (df_columns X2)] of
        k # ks \<Rightarrow> Inl (KeyError k)
      | [] \<Rightarrow>
          Inr \<lparr>df_columns = merge_columns (df_columns X1) (df_columns X2) on_cols,
               df_rows = concat (map (left_join_row X1 X2 on_cols) (df_rows X1))\<rparr>)"

section \<open>\<open>FeatureMerger\<close>\<close>

text \<open>
  Data frames are objects: a store lists them, and a reference is an index into the
  store. A constituent calculator takes the configuration, the tickers and the store, and
  returns the reference of its table with the new store, or raises. \<open>pd.merge\<close>
  returns a new frame, allocated at the end of the store.
\<close>

type_synonym 'c store = "'c dataframe list"

record ('cfg, 'c) FeatureMerger =
  fc1 :: "'cfg \<Rightarrow> string list \<Rightarrow> 'c store \<Rightarrow> py_error + nat \<times> 'c store"
  fc2 :: "'cfg \<Rightarrow> string list \<Rightarrow> 'c store \<Rightarrow> py_error + nat \<times> 'c store"
  on :: "string list"

definition FeatureMerger_calculate ::
  "('cfg, 'c) FeatureMerger \<Rightarrow> 'cfg \<Rightarrow> string list \<Rightarrow> 'c store \<Rightarrow> py_error + nat \<times> 'c store" where
  "FeatureMerger_calculate self config tickers s =
     (case fc1 self config tickers s of
        Inl e \<Rightarrow> Inl e
      | Inr (X1, s1) \<Rightarrow>
          (case fc2 self config tickers s1 of
             Inl e \<Rightarrow> Inl e
           | Inr (X2, s2) \<Rightarrow>
               (case pd_merge_left (s2 ! X1) (s2 ! X2) (on self) of
                  Inl e \<Rightarrow> Inl e
                | Inr X \<Rightarrow> Inr (length s2, s2 @ [X]))))"

text \<open>Example tables and calculators.\<close>

definition left_table :: "cell dataframe" where
  "left_table =
     \<lparr>df_columns = [''ticker'', ''f1''],
      df_rows = [[Some (CStr ''AAPL''), Some (CInt 1)], [Some (CStr ''MSFT''), Some (CInt 2)]]\<rparr>"

definition right_table :: "cell dataframe" where
  "right_table =
     \<lparr>df_columns = [''ticker'', ''f2''],
      df_rows = [[Some (CStr ''AAPL''), Some (CInt 10)], [Some (CStr ''TSLA''), Some (CInt 30)]]\<rparr>"


definition const_calculator ::
  "cell dataframe \<Rightarrow> unit \<Rightarrow> string list \<Rightarrow> cell store \<Rightarrow> py_error + nat \<times> cell store" where
  "const_calculator X config tickers s = Inr (length s, s @ [X])"

definition example_merger :: "(unit, cell) FeatureMerger" where
  "example_merger =
     \<lparr>fc1 = const_calculator left_table, fc2 = const_calculator right_table, on = [''ticker'']\<rparr>"



definition merged_example :: "cell dataframe" where
  "merged_example =
     \<lparr>df_columns = [''ticker'', ''f1'', ''f2''],
      df_rows =
        [[Some (CStr ''AAPL''), Some (CInt 1), Some (CInt 10)],
         [Some (CStr ''MSFT''), Some (CInt 2), None]]\<rparr>"

section \<open>\<open>DailyBarsData\<close>\<close>

text \<open>
  A row of a per-ticker file: the \<open>Date\<close> column as read and the other, numeric
  columns. The loaded table adds the \<open>ticker\<close> column and the converted \<open>date\<close>
  column. The file system maps a path that exists to what \<open>pd.read_csv\<close> gives for it:
  the rows in on-disk order, or the error it raises.
\<close>

record daily_bar =
  Date :: string
  bar_fields :: "string \<rightharpoonup> npfloat"

record ticker_bar = daily_bar +
  bar_ticker :: string

record 'd loaded_bar = ticker_bar +
  bar_date :: 'd

type_synonym filesystem = "string \<rightharpoonup> py_error + daily_bar list"

record DailyBarsData =
  data_path :: string
  days_count :: int

text \<open>\<open>__init__\<close>: an absent \<open>days_count\<close> becomes \<open>int(1e5)\<close>.\<close>

definition DailyBarsData_init :: "string \<Rightarrow> int option \<Rightarrow> DailyBarsData" where
  "DailyBarsData_init path count =
     \<lparr>data_path = path,
      days_count = (case count of None \<Rightarrow> 100000 | Some n \<Rightarrow> n)\<rparr>"

definition ticker_path :: "DailyBarsData \<Rightarrow> string \<Rightarrow> string" where
  "ticker_path self ticker = data_path self @ ''/'' @ ticker @ ''.csv''"

text \<open>\<open>daily_df = pd.read_csv(path)[::-1][:self.days_count]; daily_df['ticker'] = ticker\<close>\<close>

definition ticker_frame :: "DailyBarsData \<Rightarrow> string \<Rightarrow> daily_bar list \<Rightarrow> ticker_bar list" where
  "ticker_frame self ticker file_rows =
     map (\<lambda>b. \<lparr>Date = Date b, bar_fields = bar_fields b, bar_ticker = ticker\<rparr>)
         (slice_to (days_count self) (rev file_rows))"

fun load_loop ::
  "DailyBarsData \<Rightarrow> filesystem \<Rightarrow> string list \<Rightarrow> ticker_bar list list
     \<Rightarrow> py_error + ticker_bar list list" where
  "load_loop self fs [] result = Inr result"
| "load_loop self fs (ticker # index) result =
     (case fs (ticker_path self ticker) of
        None \<Rightarrow> load_loop self fs index result
      | Some (Inl e) \<Rightarrow> Inl e
      | Some (Inr file_rows) \<Rightarrow>
          load_loop self fs index (result @ [ticker_frame self ticker file_rows]))"

text \<open>
  \<open>result['date'] = result['Date'].astype(np.datetime64)\<close>: the conversion is a
  parameter, \<open>None\<close> where it raises.
\<close>

fun add_date :: "(string \<Rightarrow> 'd option) \<Rightarrow> ticker_bar list \<Rightarrow> py_error + 'd loaded_bar list" where
  "add_date astype [] = Inr []"
| "add_date astype (r # rs) =
     (case astype (Date r) of
        None \<Rightarrow> Inl ValueError
      | Some d \<Rightarrow>
          (case add_date astype rs of
             Inl e \<Rightarrow> Inl e
           | Inr rs' \<Rightarrow>
               Inr (\<lparr>Date = Date r, bar_fields = bar_fields r, bar_ticker = bar_ticker r,
                     bar_date = d\<rparr> # rs')))"

text \<open>\<open>load\<close>: \<open>Inr None\<close> is the Python \<open>None\<close> returned when nothing was loaded.\<close>

definition load ::
  "DailyBarsData \<Rightarrow> (string \<Rightarrow> 'd option) \<Rightarrow> filesystem \<Rightarrow> string list
     \<Rightarrow> py_error + 'd loaded_bar list option" where
  "load self astype fs index =
     (case load_loop self fs index [] of
        Inl e \<Rightarrow> Inl e
      | Inr result \<Rightarrow>
          if length result > 0
          then (case add_date astype (concat result) of
                  Inl e \<Rightarrow> Inl e
                | Inr rows \<Rightarrow> Inr (Some rows))
          else Inr None)"

text \<open>Example loader and files.\<close>

definition example_bar :: "string \<Rightarrow> real \<Rightarrow> daily_bar" where
  "example_bar d c = \<lparr>Date = d, bar_fields = [''Close'' \<mapsto> Fin c]\<rparr>"

definition example_fs :: filesystem where
  "example_fs =
     [''bars/AAPL.csv'' \<mapsto>
        Inr [example_bar ''2021-01-04'' 1, example_bar ''2021-01-05'' 2,
             example_bar ''2021-01-06'' 3]]"

definition example_loader :: DailyBarsData where
  "example_loader = DailyBarsData_init ''bars'' (Some 2)"

definition example_astype :: "string \<Rightarrow> string option" where
  "example_astype d = (if length d = 10 then Some d else None)"

section \<open>\<open>BaseCompanyFeatures\<close>\<close>


















section \<open>Properties of the series statistics\<close>

lemma np_max_NaN: "np_max a NaN = NaN"
  unfolding np_max_def by (induction a) simp_all

lemma np_min_NaN: "np_min a NaN = NaN"
  unfolding np_min_def by (induction a) simp_all




text \<open>
  Claim C1. The claim: for a non-empty numeric sequence the \<open>_max\<close> and \<open>_min\<close>
  entries are the maximum and minimum of the filtered sequence. The code starts both
  reductions at the sentinel (\<open>initial=np.nan\<close>), and the sentinel wins every
  comparison: on the sequence 10, 12, 9, 15 with prefix \<open>p\<close> both entries are the
  sentinel, not 15 and 9.
\<close>

theorem calc_series_stats_max_min_nan:
  "calc_series_stats [Some (Fin 10), Some (Fin 12), Some (Fin 9), Some (Fin 15)] ''p'' ''p_max''
     = Some NaN
   \<and> calc_series_stats [Some (Fin 10), Some (Fin 12), Some (Fin 9), Some (Fin 15)] ''p'' ''p_min''
     = Some NaN"
  by (simp add: calc_series_stats_def Let_def np_max_def np_min_def)

text \<open>
  The same holds for every input and prefix, the empty sequence included: both entries
  are always the sentinel.
\<close>

lemma calc_series_stats_max_min_always_nan:
  "calc_series_stats xs p (p @ ''_max'') = Some NaN
   \<and> calc_series_stats xs p (p @ ''_min'') = Some NaN"
  by (simp add: calc_series_stats_def Let_def np_max_NaN np_min_NaN)



section \<open>Properties of \<open>QuarterlyFeatures\<close>\<close>


lemma set_slice_to: "set (slice_to n xs) \<subseteq> set xs"
  by (auto simp: slice_to_def dest: in_set_takeD)






lemma single_ticker_loop_length:
  "single_ticker_loop self ticker qd bs acc = Inr rows \<Longrightarrow> length rows = length acc + length bs"
  by (induction bs arbitrary: acc) (auto split: list.splits sum.splits)




text \<open>
  Claim C9. For a ticker with no or one quarterly record the loop bound
  \<open>min(max_back_quarter, len(quarterly_data) - 1)\<close> is at most zero and the
  per-ticker computation returns the empty list, without raising.
\<close>

theorem single_ticker_degenerate:
  assumes "length (loader ticker (qf_data_path self)) \<le> 1"
  shows "min (max_back_quarter self) (int (length (loader ticker (qf_data_path self))) - 1) \<le> 0
     \<and> single_ticker self loader ticker = Inr []"
  using assms by (simp add: single_ticker_def Let_def min_def)

theorem single_ticker_degenerate_witness:
  "length (one_quarter ''AAPL'' (qf_data_path example_features)) \<le> 1
   \<and> single_ticker example_features one_quarter ''AAPL'' = Inr []
   \<and> length (no_quarters ''AAPL'' (qf_data_path example_features)) \<le> 1
   \<and> single_ticker example_features no_quarters ''AAPL'' = Inr []"
proof -
  have h1: "length (one_quarter ''AAPL'' (qf_data_path example_features)) \<le> 1"
    by (simp add: one_quarter_def)
  have h0: "length (no_quarters ''AAPL'' (qf_data_path example_features)) \<le> 1"
    by (simp add: no_quarters_def)
  show ?thesis
    using h1 h0
      single_ticker_degenerate [where loader = one_quarter and ticker = "''AAPL''" and self = example_features, OF h1]
      single_ticker_degenerate [where loader = no_quarters and ticker = "''AAPL''" and self = example_features, OF h0]
    by simp
qed

section \<open>Properties of the left join and of \<open>FeatureMerger\<close>\<close>











text \<open>
  Claim C8. \<open>FeatureMerger.calculate\<close> does not mutate its two input tables: the store
  after the merge holds, at the references of both inputs, the tables it held when the
  merge started; the result is a new object.
\<close>

theorem FeatureMerger_calculate_inputs_unchanged:
  assumes c1: "fc1 self config tickers s = Inr (a1, s1)"
      and c2: "fc2 self config tickers s1 = Inr (a2, s2)"
      and v1: "a1 < length s2" and v2: "a2 < length s2"
      and r: "FeatureMerger_calculate self config tickers s = Inr (a, s')"
  shows "s' ! a1 = s2 ! a1 \<and> s' ! a2 = s2 ! a2 \<and> a \<noteq> a1 \<and> a \<noteq> a2
     \<and> take (length s2) s' = s2 \<and> length s' = length s2 + 1"
proof -
  from r c1 c2 obtain X where "a = length s2" "s' = s2 @ [X]"
    by (auto simp: FeatureMerger_calculate_def split: sum.splits)
  then show ?thesis using v1 v2 by (simp add: nth_append)
qed

theorem FeatureMerger_calculate_inputs_unchanged_witness:
  "FeatureMerger_calculate example_merger () [''AAPL'', ''MSFT''] [] =
     Inr (2, [left_table, right_table, merged_example])
   \<and> [left_table, right_table, merged_example] ! 0 = left_table
   \<and> [left_table, right_table, merged_example] ! 1 = right_table
   \<and> (2::nat) \<noteq> 0 \<and> (2::nat) \<noteq> 1"
proof -
  have c1: "fc1 example_merger () [''AAPL'', ''MSFT''] [] = Inr (0, [left_table])"
    by (simp add: example_merger_def const_calculator_def)
  have c2: "fc2 example_merger () [''AAPL'', ''MSFT''] [left_table] = Inr (1, [left_table, right_table])"
    by (simp add: example_merger_def const_calculator_def)
  have r: "FeatureMerger_calculate example_merger () [''AAPL'', ''MSFT''] [] =
     Inr (2, [left_table, right_table, merged_example])"
    by (simp add: FeatureMerger_calculate_def example_merger_def
      const_calculator_def pd_merge_left_def left_table_def right_table_def
      merged_example_def merge_columns_def nonkey_columns_def left_join_row_def
      matches_def row_key_def cell_at_def nonkey_cells_def Let_def)
  have v1: "(0::nat) < length [left_table, right_table]" by simp
  have v2: "(1::nat) < length [left_table, right_table]" by simp
  from FeatureMerger_calculate_inputs_unchanged [OF c1 c2 v1 v2 r]
  show ?thesis using r by simp
qed

section \<open>Properties of \<open>DailyBarsData\<close>\<close>

lemma daily_bar_eta: "\<lparr>Date = Date b, bar_fields = bar_fields b\<rparr> = (b :: daily_bar)"
  by (cases b) simp

lemma set_map_filter_conv:
  "set (List.map_filter f xs) = {y. \<exists>x \<in> set xs. f x = Some y}"
  by (induction xs) (auto split: option.splits)

lemma load_loop_skip:
  "load_loop self fs index acc =
     load_loop self fs [t \<leftarrow> index. fs (ticker_path self t) \<noteq> None] acc"
  by (induction index arbitrary: acc) (auto split: option.splits sum.splits)

lemma load_loop_no_files:
  "\<forall>t \<in> set index. fs (ticker_path self t) = None \<Longrightarrow> load_loop self fs index acc = Inr acc"
  by (induction index arbitrary: acc) auto

lemma load_loop_frames:
  assumes "\<forall>t \<in> set index. \<forall>e. fs (ticker_path self t) \<noteq> Some (Inl e)"
  shows "load_loop self fs index acc =
     Inr (acc @ List.map_filter
            (\<lambda>t. case fs (ticker_path self t) of
                    Some (Inr file_rows) \<Rightarrow> Some (ticker_frame self t file_rows)
                  | _ \<Rightarrow> None) index)"
  using assms
  by (induction index arbitrary: acc)
     (auto simp: List.map_filter_simps split: option.splits sum.splits)

lemma add_date_total:
  "\<forall>r \<in> set rs. astype (Date r) \<noteq> None \<Longrightarrow>
   add_date astype rs =
     Inr (map (\<lambda>r. \<lparr>Date = Date r, bar_fields = bar_fields r, bar_ticker = bar_ticker r,
                      bar_date = the (astype (Date r))\<rparr>) rs)"
  by (induction rs) auto

lemma filter_ticker_frame:
  "[r \<leftarrow> ticker_frame self t file_rows. bar_ticker r = t0] =
     (if t = t0 then ticker_frame self t file_rows else [])"
  by (simp add: ticker_frame_def filter_map comp_def)

lemma filter_frames:
  assumes "fs (ticker_path self t0) = Some (Inr rows0)"
  shows "[r \<leftarrow> concat (List.map_filter
            (\<lambda>t. case fs (ticker_path self t) of
                    Some (Inr file_rows) \<Rightarrow> Some (ticker_frame self t file_rows)
                  | _ \<Rightarrow> None) index). bar_ticker r = t0] =
     concat (replicate (count_list index t0) (ticker_frame self t0 rows0))"
proof (induction index)
  case Nil
  then show ?case by (simp add: List.map_filter_simps)
next
  case (Cons t ts)
  show ?case
  proof (cases "t = t0")
    case True
    then show ?thesis
      using Cons.IH assms by (simp add: List.map_filter_simps filter_ticker_frame)
  next
    case False
    then show ?thesis
      using Cons.IH
      by (auto simp: List.map_filter_simps filter_ticker_frame split: option.splits sum.splits)
  qed
qed

lemma set_frames:
  assumes "r \<in> set (concat (List.map_filter
            (\<lambda>t. case fs (ticker_path self t) of
                    Some (Inr file_rows) \<Rightarrow> Some (ticker_frame self t file_rows)
                  | _ \<Rightarrow> None) index))"
  shows "\<exists>t \<in> set index. \<exists>file_rows. fs (ticker_path self t) = Some (Inr file_rows)
           \<and> (\<exists>b \<in> set file_rows. Date r = Date b)"
proof -
  from assms obtain t fr where t0: "t \<in> set index"
    "(case fs (ticker_path self t) of
        Some (Inr file_rows) \<Rightarrow> Some (ticker_frame self t file_rows)
      | _ \<Rightarrow> None) = Some fr" "r \<in> set fr"
    by (auto simp: set_map_filter_conv)
  from t0(2) obtain file_rows where fr: "fs (ticker_path self t) = Some (Inr file_rows)"
    "fr = ticker_frame self t file_rows"
    by (auto split: option.splits sum.splits)
  have t: "t \<in> set index" "fs (ticker_path self t) = Some (Inr file_rows)"
    "r \<in> set (ticker_frame self t file_rows)"
    using t0 fr by simp_all
  from t(3) obtain b where "b \<in> set (slice_to (days_count self) (rev file_rows))" "Date r = Date b"
    by (auto simp: ticker_frame_def)
  moreover have "set (slice_to (days_count self) (rev file_rows)) \<subseteq> set file_rows"
    using set_slice_to [of "days_count self" "rev file_rows"] by simp
  ultimately show ?thesis using t(1,2) by blast
qed

text \<open>
  Claim C4. \<open>load\<close> skips every requested ticker whose file is absent: the result is the
  result for the requested tickers that have a file. When no requested ticker has a file
  it returns \<open>None\<close>, which is not an empty table.
\<close>

theorem load_skips_missing_files:
  "load self astype fs index =
     load self astype fs [t \<leftarrow> index. fs (ticker_path self t) \<noteq> None]
   \<and> ((\<forall>t \<in> set index. fs (ticker_path self t) = None) \<longrightarrow>
        load self astype fs index = Inr None \<and> load self astype fs index \<noteq> Inr (Some []))"
proof -
  have "load self astype fs index =
     load self astype fs [t \<leftarrow> index. fs (ticker_path self t) \<noteq> None]"
    unfolding load_def using load_loop_skip [of self fs index "[]"] by simp
  moreover have "(\<forall>t \<in> set index. fs (ticker_path self t) = None) \<longrightarrow>
        load self astype fs index = Inr None \<and> load self astype fs index \<noteq> Inr (Some [])"
    by (simp add: load_def load_loop_no_files)
  ultimately show ?thesis by blast
qed

theorem load_skips_missing_files_witness:
  "load example_loader example_astype example_fs [''TSLA'', ''MSFT''] = Inr None
   \<and> load example_loader example_astype example_fs [''TSLA'', ''AAPL'', ''MSFT'']
       = load example_loader example_astype example_fs [''AAPL'']"
proof -
  have h: "\<forall>t \<in> set [''TSLA'', ''MSFT'']. example_fs (ticker_path example_loader t) = None"
    by (simp add: example_fs_def ticker_path_def example_loader_def DailyBarsData_init_def)
  have f: "[t \<leftarrow> [''TSLA'', ''AAPL'', ''MSFT'']. example_fs (ticker_path example_loader t) \<noteq> None]
             = [''AAPL'']"
    by (simp add: example_fs_def ticker_path_def example_loader_def DailyBarsData_init_def)
  from load_skips_missing_files [of example_loader example_astype example_fs "[''TSLA'', ''MSFT'']"] h
  have "load example_loader example_astype example_fs [''TSLA'', ''MSFT''] = Inr None"
    by blast
  moreover
  from load_skips_missing_files [of example_loader example_astype example_fs
        "[''TSLA'', ''AAPL'', ''MSFT'']"]
  have "load example_loader example_astype example_fs [''TSLA'', ''AAPL'', ''MSFT'']
       = load example_loader example_astype example_fs [''AAPL'']"
    unfolding f by blast
  ultimately show ?thesis by blast
qed

text \<open>
  Claim C7. When every requested file that exists can be read and its dates convert, and
  \<open>days_count\<close> is not negative, \<open>load\<close> returns a table in which the rows of a
  requested ticker with a file are the file's rows in reversed order, cut to the first
  \<open>days_count\<close> of them (once for each time the ticker is requested), each with its
  converted date. A loader built without \<open>days_count\<close> uses 100000.
\<close>

theorem load_recent_first_capped:
  assumes readable: "\<forall>t \<in> set index. \<forall>e. fs (ticker_path self t) \<noteq> Some (Inl e)"
      and dates: "\<forall>t \<in> set index. \<forall>file_rows. fs (ticker_path self t) = Some (Inr file_rows)
                    \<longrightarrow> (\<forall>b \<in> set file_rows. astype (Date b) \<noteq> None)"
      and req: "t0 \<in> set index"
      and fl: "fs (ticker_path self t0) = Some (Inr rows0)"
      and cnt: "0 \<le> days_count self"
  shows "\<exists>res. load self astype fs index = Inr (Some res)
     \<and> map (\<lambda>r. \<lparr>Date = Date r, bar_fields = bar_fields r\<rparr>) [r \<leftarrow> res. bar_ticker r = t0]
         = concat (replicate (count_list index t0) (take (nat (days_count self)) (rev rows0)))
     \<and> length (take (nat (days_count self)) (rev rows0)) \<le> nat (days_count self)
     \<and> (\<forall>r \<in> set res. astype (Date r) = Some (bar_date r))
     \<and> days_count (DailyBarsData_init path None) = 100000"
proof -
  let ?G = "\<lambda>t. case fs (ticker_path self t) of
                    Some (Inr file_rows) \<Rightarrow> Some (ticker_frame self t file_rows)
                  | _ \<Rightarrow> None"
  let ?frames = "List.map_filter ?G index"
  let ?ext = "\<lambda>r. \<lparr>Date = Date r, bar_fields = bar_fields r, bar_ticker = bar_ticker r,
                      bar_date = the (astype (Date r))\<rparr>"
  let ?res = "map ?ext (concat ?frames)"
  have loop: "load_loop self fs index [] = Inr ?frames"
    using load_loop_frames [OF readable, of "[]"] by simp
  have "ticker_frame self t0 rows0 \<in> set ?frames"
    using req fl by (auto simp: set_map_filter_conv intro!: bexI [where x = t0])
  then have nonempty: "length ?frames > 0"
    by (cases ?frames) auto
  have conv: "\<forall>r \<in> set (concat ?frames). astype (Date r) \<noteq> None"
  proof
    fix r assume "r \<in> set (concat ?frames)"
    from set_frames [OF this] dates show "astype (Date r) \<noteq> None"
      by metis
  qed
  have add: "add_date astype (concat ?frames) = Inr ?res"
    by (rule add_date_total [OF conv])
  have ld: "load self astype fs index = Inr (Some ?res)"
    using loop nonempty add by (simp add: load_def)
  have "[r \<leftarrow> ?res. bar_ticker r = t0] = map ?ext [r \<leftarrow> concat ?frames. bar_ticker r = t0]"
    by (simp add: filter_map comp_def)
  also have "\<dots> = map ?ext (concat (replicate (count_list index t0) (ticker_frame self t0 rows0)))"
    by (simp only: filter_frames [where fs = fs and self = self and ?t0.0 = t0 and ?rows0.0 = rows0, OF fl])
  finally have "map (\<lambda>r. \<lparr>Date = Date r, bar_fields = bar_fields r\<rparr>) [r \<leftarrow> ?res. bar_ticker r = t0]
      = concat (replicate (count_list index t0)
          (map (\<lambda>r. \<lparr>Date = Date r, bar_fields = bar_fields r\<rparr>) (ticker_frame self t0 rows0)))"
    by (simp add: map_concat comp_def)
  moreover have "map (\<lambda>r. \<lparr>Date = Date r, bar_fields = bar_fields r\<rparr>) (ticker_frame self t0 rows0)
      = take (nat (days_count self)) (rev rows0)"
    using cnt by (simp add: ticker_frame_def slice_to_def comp_def daily_bar_eta)
  ultimately have blk: "map (\<lambda>r. \<lparr>Date = Date r, bar_fields = bar_fields r\<rparr>)
        [r \<leftarrow> ?res. bar_ticker r = t0]
      = concat (replicate (count_list index t0) (take (nat (days_count self)) (rev rows0)))"
    by simp
  have dts: "\<forall>r \<in> set ?res. astype (Date r) = Some (bar_date r)"
    using conv by auto
  have dflt: "days_count (DailyBarsData_init path None) = 100000"
    by (simp add: DailyBarsData_init_def)
  show ?thesis
    using ld blk dts dflt by (intro exI [where x = ?res]) simp
qed

theorem load_recent_first_capped_witness:
  "\<exists>res. load example_loader example_astype example_fs [''TSLA'', ''AAPL''] = Inr (Some res)
     \<and> map (\<lambda>r. \<lparr>Date = Date r, bar_fields = bar_fields r\<rparr>) [r \<leftarrow> res. bar_ticker r = ''AAPL'']
         = [example_bar ''2021-01-06'' 3, example_bar ''2021-01-05'' 2]"
proof -
  have readable: "\<forall>t \<in> set [''TSLA'', ''AAPL'']. \<forall>e.
      example_fs (ticker_path example_loader t) \<noteq> Some (Inl e)"
    by (simp add: example_fs_def ticker_path_def example_loader_def DailyBarsData_init_def)
  have dates: "\<forall>t \<in> set [''TSLA'', ''AAPL'']. \<forall>file_rows.
      example_fs (ticker_path example_loader t) = Some (Inr file_rows)
        \<longrightarrow> (\<forall>b \<in> set file_rows. example_astype (Date b) \<noteq> None)"
    by (auto simp: example_fs_def ticker_path_def example_loader_def DailyBarsData_init_def
        example_astype_def example_bar_def)
  have req: "''AAPL'' \<in> set [''TSLA'', ''AAPL'']" by simp
  have fl: "example_fs (ticker_path example_loader ''AAPL'') =
      Some (Inr [example_bar ''2021-01-04'' 1, example_bar ''2021-01-05'' 2,
                 example_bar ''2021-01-06'' 3])"
    by (simp add: example_fs_def ticker_path_def example_loader_def DailyBarsData_init_def)
  have cnt: "0 \<le> days_count example_loader"
    by (simp add: example_loader_def DailyBarsData_init_def)
  have two: "nat (days_count example_loader) = 2"
    by (simp add: example_loader_def DailyBarsData_init_def)
  from load_recent_first_capped [OF readable dates req fl cnt, of "''bars''"]
  show ?thesis
    unfolding two by auto
qed

section \<open>Properties of \<open>BaseCompanyFeatures\<close>\<close>
























end
